theory Spec2Isabelle
  imports Complex_Main
begin

section \<open>Survey\_drilling3d: drillhole trajectories and feature draping\<close>

text \<open>
  A shallow embedding of \<^verbatim>\<open>W5 Extra/E01/Survey_drilling3d.py\<close>. The module
  computes with numpy \<^verbatim>\<open>float64\<close> values; they are modelled by the real numbers,
  so rounding, \<^verbatim>\<open>inf\<close> and \<^verbatim>\<open>nan\<close> results of arithmetic are outside the
  model. A numpy array of three floats is a triple of reals.
\<close>

subsection \<open>Vectors\<close>

type_synonym vec3 = "real \<times> real \<times> real"

definition vadd :: "vec3 \<Rightarrow> vec3 \<Rightarrow> vec3" where
  "vadd u v = (case u of (ux, uy, uz) \<Rightarrow> case v of (vx, vy, vz) \<Rightarrow> (ux + vx, uy + vy, uz + vz))"

definition vscale :: "real \<Rightarrow> vec3 \<Rightarrow> vec3" where
  "vscale c v = (case v of (vx, vy, vz) \<Rightarrow> (c * vx, c * vy, c * vz))"


subsection \<open>The segment solver \<^verbatim>\<open>xyz\<close> (lines 19--42)\<close>

text \<open>\<^verbatim>\<open>np.radians\<close>: degrees to radians.\<close>

definition radians :: "real \<Rightarrow> real" where
  "radians x = x * pi / 180"

text \<open>
  The dog-leg angle \<^verbatim>\<open>dl\<close> of line 31, computed from the converted angles of lines
  25--29, and the ratio factor \<^verbatim>\<open>rf\<close> of lines 33--36.
\<close>

definition xyz_dl :: "real \<Rightarrow> real \<Rightarrow> real \<Rightarrow> real \<Rightarrow> real" where
  "xyz_dl az1 dip1 az2 dip2 =
     (let az1 = radians az1;
          dip1 = radians (90 - dip1);
          az2 = radians az2;
          dip2 = radians (90 - dip2)
      in arccos (cos (dip2 - dip1) - sin dip1 * sin dip2 * (1 - cos (az2 - az1))))"

definition xyz_rf :: "real \<Rightarrow> real" where
  "xyz_rf dl = (if dl \<noteq> 0 then 2 * tan (dl / 2) / dl else 1)"

definition xyz :: "real \<Rightarrow> real \<Rightarrow> real \<Rightarrow> real \<Rightarrow> real \<Rightarrow> vec3" where
  "xyz d az1 dip1 az2 dip2 =
     (let dl = xyz_dl az1 dip1 az2 dip2;
          rf = xyz_rf dl;
          az1 = radians az1;
          dip1 = radians (90 - dip1);
          az2 = radians az2;
          dip2 = radians (90 - dip2);
          dz = - 0.5 * d * (cos dip1 + cos dip2) * rf;
          dy = 0.5 * d * (sin dip1 * cos az1 + sin dip2 * cos az2) * rf;
          dx = 0.5 * d * (sin dip1 * sin az1 + sin dip2 * sin az2) * rf
      in (dx, dy, dz))"


subsection \<open>Tables and the \<^verbatim>\<open>DrillData\<close> object (lines 45--62)\<close>

text \<open>
  The three data frames are modelled with the columns the class documents, in the
  documented order: collar \<open>ID, X, Y, Z\<close>; survey \<open>ID, AT, AZ, DIP\<close>; table
  \<open>ID, FROM, TO\<close> followed by feature columns. Such frames pass \<^verbatim>\<open>validate_columns\<close>
  and \<^verbatim>\<open>validate_datatypes\<close>, which check labels and dtypes only and are not modelled.
  A cell of a feature column is a label, a number or \<^verbatim>\<open>nan\<close>.
\<close>

record collar_row =
  collar_ID :: string
  X :: real
  Y :: real
  Z :: real

record survey_row =
  survey_ID :: string
  AT :: real
  AZ :: real
  DIP :: real

datatype cell = Str string | Num real | NaN

record table_row =
  table_ID :: string
  FROM :: real
  TO :: real
  cells :: "(string \<times> cell) list"

text \<open>
  \<open>tcolumns\<close> are the labels of the feature columns of the table. A row that has no
  entry for a feature column holds \<^verbatim>\<open>nan\<close> there. Requesting one of the key columns
  \<open>ID\<close>, \<open>FROM\<close>, \<open>TO\<close> as the feature (a frame with a duplicated label) is not
  modelled.
\<close>

record feature_table =
  tcolumns :: "string list"
  trows :: "table_row list"

text \<open>One row of the output: \<^verbatim>\<open>[x, y, z, col]\<close>, the position \<^verbatim>\<open>None\<close> in a gap marker.\<close>

type_synonym point = "real option \<times> real option \<times> real option \<times> cell"

datatype error = KeyError | IndexError | ValueError | ZeroDivisionError | TypeError

text \<open>
  \<^verbatim>\<open>scipy.interpolate\<close> is not part of the repository: its two functions are
  parameters of the model. \<^verbatim>\<open>splprep(knots.T, k=k)\<close> returns the curve \<^verbatim>\<open>tck\<close> or
  raises; \<^verbatim>\<open>splev(u, tck)\<close> is called with its default \<^verbatim>\<open>ext=0\<close>, under which
  it returns a point for every parameter \<open>u\<close>.
\<close>

record 'tck interpolate =
  splprep :: "vec3 list \<Rightarrow> nat \<Rightarrow> error + 'tck"
  splev :: "real \<Rightarrow> 'tck \<Rightarrow> vec3"

text \<open>
  The attributes of a \<^verbatim>\<open>DrillData\<close> object that the modelled methods read or write.
  \<open>points = None\<close> stands for the attribute not being set.
\<close>

record drill_data =
  collar :: "collar_row list"
  survey :: "survey_row list"
  table :: feature_table
  validated :: bool
  has_points :: bool
  feature :: "string option"
  feature_dtype :: "string option"
  points :: "point list option"

text \<open>\<^verbatim>\<open>__init__\<close> (lines 52--62).\<close>

definition init :: "collar_row list \<Rightarrow> survey_row list \<Rightarrow> feature_table \<Rightarrow> drill_data" where
  "init c s t =
     \<lparr>collar = c, survey = s, table = t, validated = False, has_points = False,
      feature = None, feature_dtype = None, points = None\<rparr>"

text \<open>\<^verbatim>\<open>Series.unique()\<close>: the distinct values in order of first appearance.\<close>

fun unique :: "'a list \<Rightarrow> 'a list" where
  "unique [] = []"
| "unique (x # xs) = x # unique (filter (\<lambda>y. y \<noteq> x) xs)"

subsection \<open>\<^verbatim>\<open>validate_survey\<close> (lines 112--133) and \<^verbatim>\<open>validate_ID\<close> (lines 136--166)\<close>

definition one_row_dh :: "survey_row list \<Rightarrow> string list" where
  "one_row_dh sv =
     filter (\<lambda>dh. length (filter (\<lambda>r. survey_ID r = dh) sv) \<le> 1)
            (unique (map survey_ID sv))"

definition validate_survey :: "drill_data \<Rightarrow> drill_data" where
  "validate_survey st =
     (if \<not> validated st then st
      else if length (one_row_dh (survey st)) = 0 then st\<lparr>validated := True\<rparr>
      else st\<lparr>validated := False\<rparr>)"

text \<open>Python's \<^verbatim>\<open>^\<close> on sets.\<close>

definition symdiff :: "'a set \<Rightarrow> 'a set \<Rightarrow> 'a set" where
  "symdiff A B = (A - B) \<union> (B - A)"

definition extra_dh :: "drill_data \<Rightarrow> string set" where
  "extra_dh st =
     (let c = set (unique (map collar_ID (collar st)));
          s = set (unique (map survey_ID (survey st)));
          t = set (unique (map table_ID (trows (table st))))
      in symdiff c s \<union> symdiff t s \<union> symdiff c t)"

definition validate_ID :: "drill_data \<Rightarrow> drill_data" where
  "validate_ID st =
     (if \<not> validated st then st
      else if extra_dh st = {} then st\<lparr>validated := True\<rparr>
      else st\<lparr>validated := False\<rparr>)"

subsection \<open>\<^verbatim>\<open>get_points\<close> (lines 199--292)\<close>

text \<open>
  Line 210, \<^verbatim>\<open>self.table[["ID", "FROM", "TO", feature]]\<close>: a \<^verbatim>\<open>KeyError\<close> when the
  table has no column of that label, else the rows \<open>(ID, FROM, TO, cell)\<close>.
\<close>

definition cell_of :: "table_row \<Rightarrow> string \<Rightarrow> cell" where
  "cell_of r feat = (case map_of (cells r) feat of None \<Rightarrow> NaN | Some c \<Rightarrow> c)"

definition select_columns :: "feature_table \<Rightarrow> string \<Rightarrow> error + (string \<times> real \<times> real \<times> cell) list" where
  "select_columns t feat =
     (if feat \<in> set (tcolumns t)
      then Inr (map (\<lambda>r. (table_ID r, FROM r, TO r, cell_of r feat)) (trows t))
      else Inl KeyError)"

text \<open>
  Lines 218--220 (and 255--257): the rows of one drillhole without the \<open>ID\<close> column.
  \<^verbatim>\<open>.values[0]\<close> raises \<^verbatim>\<open>IndexError\<close> when the collar has no row for the hole.
\<close>

definition dh_collar :: "collar_row list \<Rightarrow> string \<Rightarrow> error + vec3" where
  "dh_collar co dh =
     (case filter (\<lambda>r. collar_ID r = dh) co of
        [] \<Rightarrow> Inl IndexError
      | r # _ \<Rightarrow> Inr (X r, Y r, Z r))"

definition dh_survey :: "survey_row list \<Rightarrow> string \<Rightarrow> (real \<times> real \<times> real) list" where
  "dh_survey sv dh =
     map (\<lambda>r. (AT r, AZ r, DIP r)) (filter (\<lambda>r. survey_ID r = dh) sv)"

definition dh_feature :: "(string \<times> real \<times> real \<times> cell) list \<Rightarrow> string \<Rightarrow> (real \<times> real \<times> cell) list" where
  "dh_feature tb dh = map snd (filter (\<lambda>r. fst r = dh) tb)"

text \<open>
  Lines 223--230 (and 260--267): the knots. \<open>lengths\<close> are the differences of
  consecutive \<open>AT\<close> values; the first knot is the origin, then one displacement of
  \<open>xyz\<close> per consecutive pair of stations; \<^verbatim>\<open>np.cumsum\<close> sums them up from the
  left, and the collar position is added to every row.
\<close>

definition lengths :: "(real \<times> real \<times> real) list \<Rightarrow> real list" where
  "lengths hs = map2 (\<lambda>b a. b - a) (map fst (tl hs)) (map fst (butlast hs))"

definition displacements :: "(real \<times> real \<times> real) list \<Rightarrow> vec3 list" where
  "displacements hs =
     map (\<lambda>(d, array1, array2). xyz d (fst array1) (snd array1) (fst array2) (snd array2))
         (zip (lengths hs) (zip (map snd (butlast hs)) (map snd (tl hs))))"

fun cumsum_from :: "vec3 \<Rightarrow> vec3 list \<Rightarrow> vec3 list" where
  "cumsum_from acc [] = []"
| "cumsum_from acc (v # vs) = vadd acc v # cumsum_from (vadd acc v) vs"

fun cumsum :: "vec3 list \<Rightarrow> vec3 list" where
  "cumsum [] = []"
| "cumsum (v # vs) = v # cumsum_from v vs"

definition knots :: "vec3 \<Rightarrow> (real \<times> real \<times> real) list \<Rightarrow> vec3 list" where
  "knots hc hs = map (\<lambda>k. vadd k hc) (cumsum ((0, 0, 0) # displacements hs))"

text \<open>Lines 233--236 (and 270--273): the degree passed to \<^verbatim>\<open>splprep\<close>.\<close>

definition spline_degree :: "(real \<times> real \<times> real) list \<Rightarrow> nat" where
  "spline_degree hs = (if length hs > 3 then 2 else 1)"

definition fit :: "'tck interpolate \<Rightarrow> vec3 \<Rightarrow> (real \<times> real \<times> real) list \<Rightarrow> error + 'tck" where
  "fit lib hc hs = splprep lib (knots hc hs) (spline_degree hs)"

text \<open>
  Lines 239--241 (and 276--278). \<^verbatim>\<open>max()\<close> of an empty column raises
  \<^verbatim>\<open>ValueError\<close>. Dividing by a \<^verbatim>\<open>length\<close> of 0 raises \<^verbatim>\<open>ZeroDivisionError\<close> on
  columns of dtype object and yields \<^verbatim>\<open>inf\<close> or \<^verbatim>\<open>nan\<close> on float columns; these
  are not real numbers, and the model stops with the error in both cases.
\<close>

definition max_TO :: "(real \<times> real \<times> cell) list \<Rightarrow> error + real" where
  "max_TO hf =
     (case map (\<lambda>r. fst (snd r)) hf of
        [] \<Rightarrow> Inl ValueError
      | x # xs \<Rightarrow> Inr (fold max xs x))"

definition divide_by :: "real list \<Rightarrow> real \<Rightarrow> error + real list" where
  "divide_by xs len = (if len = 0 then Inl ZeroDivisionError else Inr (map (\<lambda>x. x / len) xs))"

text \<open>The point \<^verbatim>\<open>[float(i) for i in interpolate.splev(a, tck)]\<close> with \<open>col\<close> appended.\<close>

definition sample :: "'tck interpolate \<Rightarrow> 'tck \<Rightarrow> real \<Rightarrow> cell \<Rightarrow> point" where
  "sample lib tck a col = (case splev lib a tck of (x, y, z) \<Rightarrow> (Some x, Some y, Some z, col))"

text \<open>The inner loops: lines 244--250 (categorical) and 281--288 (numeric).\<close>

definition categorical_points :: "'tck interpolate \<Rightarrow> 'tck \<Rightarrow> real list \<Rightarrow> real list \<Rightarrow> cell list \<Rightarrow> point list" where
  "categorical_points lib tck dfrom dto column =
     concat (map (\<lambda>(a, b, col).
                    let p1 = sample lib tck a col;
                        p2 = sample lib tck b col;
                        p3 = (None, None, None, col)
                    in [p1, p2, p3])
                 (zip dfrom (zip dto column)))"

definition numeric_points :: "'tck interpolate \<Rightarrow> 'tck \<Rightarrow> real list \<Rightarrow> real list \<Rightarrow> cell list \<Rightarrow> point list" where
  "numeric_points lib tck dfrom dto column =
     concat (map (\<lambda>(a, b, col).
                    let p1 = sample lib tck a col;
                        p2 = sample lib tck b col
                    in [p1, p2])
                 (zip dfrom (zip dto column)))
     @ [(None, None, None, NaN)]"

text \<open>
  One pass of the loop over the drillholes (lines 217--250, or 254--288 when
  \<open>numeric\<close> holds): the points of drillhole \<open>dh\<close>, or the exception that ends the call.
\<close>

definition hole_points ::
  "'tck interpolate \<Rightarrow> bool \<Rightarrow> collar_row list \<Rightarrow> survey_row list \<Rightarrow>
   (string \<times> real \<times> real \<times> cell) list \<Rightarrow> string \<Rightarrow> error + point list" where
  "hole_points lib numeric co sv tb dh =
     (case dh_collar co dh of
        Inl e \<Rightarrow> Inl e
      | Inr c \<Rightarrow>
          (case fit lib c (dh_survey sv dh) of
             Inl e \<Rightarrow> Inl e
           | Inr tck \<Rightarrow>
               (case max_TO (dh_feature tb dh) of
                  Inl e \<Rightarrow> Inl e
                | Inr len \<Rightarrow>
                    (case divide_by (map fst (dh_feature tb dh)) len of
                       Inl e \<Rightarrow> Inl e
                     | Inr dfrom \<Rightarrow>
                         (case divide_by (map (\<lambda>r. fst (snd r)) (dh_feature tb dh)) len of
                            Inl e \<Rightarrow> Inl e
                          | Inr dto \<Rightarrow>
                              (let column = map (\<lambda>r. snd (snd r)) (dh_feature tb dh)
                               in Inr (if numeric
                                       then numeric_points lib tck dfrom dto column
                                       else categorical_points lib tck dfrom dto column)))))))"

text \<open>The loop \<^verbatim>\<open>for dh in tqdm(holeid)\<close>, extending \<^verbatim>\<open>points\<close>; an exception ends it.\<close>

fun all_holes :: "(string \<Rightarrow> error + point list) \<Rightarrow> point list \<Rightarrow> string list \<Rightarrow> error + point list" where
  "all_holes f ps [] = Inr ps"
| "all_holes f ps (dh # holeid) =
     (case f dh of
        Inl e \<Rightarrow> Inl e
      | Inr qs \<Rightarrow> all_holes f (ps @ qs) holeid)"

text \<open>
  The method returns the exception it raised, if any, and the object as the call leaves
  it. Without validation it prints a message and returns.
\<close>

definition get_points :: "'tck interpolate \<Rightarrow> string \<Rightarrow> string \<Rightarrow> drill_data \<Rightarrow> error option \<times> drill_data" where
  "get_points lib feat dtype st =
     (if validated st = False then (None, st)
      else
        (let st = st\<lparr>feature := Some feat, feature_dtype := Some dtype\<rparr>
         in case select_columns (table st) feat of
              Inl e \<Rightarrow> (Some e, st)
            | Inr tb \<Rightarrow>
                (let holeid = unique (map survey_ID (survey st))
                 in case (if dtype = ''categorical''
                          then all_holes (hole_points lib False (collar st) (survey st) tb) [] holeid
                          else if dtype = ''numeric''
                          then all_holes (hole_points lib True (collar st) (survey st) tb) [] holeid
                          else Inr []) of
                      Inl e \<Rightarrow> (Some e, st)
                    | Inr ps \<Rightarrow> (None, st\<lparr>points := Some ps, has_points := True\<rparr>))))"

subsection \<open>A curve library for the examples\<close>

text \<open>
  The concrete examples below need some instance of the library parameter. This one
  fits the straight line from the first knot to the last one. Like \<^verbatim>\<open>splprep\<close> it
  raises \<^verbatim>\<open>TypeError\<close> unless there are more knots than the degree, and like
  \<^verbatim>\<open>splev\<close> with \<^verbatim>\<open>ext=0\<close> it evaluates the line at every parameter.
\<close>

definition line_interpolate :: "(vec3 \<times> vec3) interpolate" where
  "line_interpolate =
     \<lparr>splprep = (\<lambda>ks k. if k < length ks then Inr (hd ks, last ks) else Inl TypeError),
      splev = (\<lambda>u tck. case tck of (p, q) \<Rightarrow> vadd p (vscale u (vadd q (vscale (- 1) p))))\<rparr>"

subsection \<open>Reference definitions for the properties\<close>


text \<open>
  The order of the output as the specification describes it, read off the input tables:
  the drillholes in the order in which their IDs first appear in the survey table, and
  for each drillhole its feature rows in the order of the feature table. Each row
  contributes its value once per emitted point (three points in categorical mode, two
  in numeric mode, where a \<^verbatim>\<open>nan\<close> marker closes the drillhole).
\<close>

definition hole_values :: "bool \<Rightarrow> string \<Rightarrow> feature_table \<Rightarrow> string \<Rightarrow> cell list" where
  "hole_values numeric feat t dh =
     (let rows = filter (\<lambda>r. table_ID r = dh) (trows t)
      in if numeric
         then concat (map (\<lambda>r. [cell_of r feat, cell_of r feat]) rows) @ [NaN]
         else concat (map (\<lambda>r. [cell_of r feat, cell_of r feat, cell_of r feat]) rows))"

definition output_values :: "bool \<Rightarrow> string \<Rightarrow> feature_table \<Rightarrow> survey_row list \<Rightarrow> cell list" where
  "output_values numeric feat t sv =
     concat (map (hole_values numeric feat t) (unique (map survey_ID sv)))"

definition point_value :: "point \<Rightarrow> cell" where
  "point_value p = snd (snd (snd p))"

subsection \<open>Example data\<close>


definition e2e_survey :: "survey_row list" where
  "e2e_survey =
     [\<lparr>survey_ID = ''DH1'', AT = 0, AZ = 0, DIP = 0\<rparr>,
      \<lparr>survey_ID = ''DH1'', AT = 50, AZ = 10, DIP = 5\<rparr>,
      \<lparr>survey_ID = ''DH1'', AT = 100, AZ = 15, DIP = 10\<rparr>]"

definition e2e_table :: feature_table where
  "e2e_table =
     \<lparr>tcolumns = [''LITH''],
      trows =
        [\<lparr>table_ID = ''DH1'', FROM = 0, TO = 50, cells = [(''LITH'', Str ''ORE'')]\<rparr>,
         \<lparr>table_ID = ''DH1'', FROM = 50, TO = 100, cells = [(''LITH'', Str ''WASTE'')]\<rparr>]\<rparr>"

text \<open>
  Two vertical drillholes whose survey rows are interleaved, \<open>DH2\<close> first; the object
  is in the state that a successful validation leaves.
\<close>

definition demo_collar :: "collar_row list" where
  "demo_collar =
     [\<lparr>collar_ID = ''DH1'', X = 1000, Y = 1000, Z = 500\<rparr>,
      \<lparr>collar_ID = ''DH2'', X = 2000, Y = 1000, Z = 500\<rparr>]"

definition demo_survey :: "survey_row list" where
  "demo_survey =
     [\<lparr>survey_ID = ''DH2'', AT = 0, AZ = 0, DIP = 90\<rparr>,
      \<lparr>survey_ID = ''DH1'', AT = 0, AZ = 0, DIP = 90\<rparr>,
      \<lparr>survey_ID = ''DH2'', AT = 200, AZ = 0, DIP = 90\<rparr>,
      \<lparr>survey_ID = ''DH1'', AT = 100, AZ = 0, DIP = 90\<rparr>]"

definition demo_table :: feature_table where
  "demo_table =
     \<lparr>tcolumns = [''LITH''],
      trows =
        [\<lparr>table_ID = ''DH1'', FROM = 0, TO = 50, cells = [(''LITH'', Str ''ORE'')]\<rparr>,
         \<lparr>table_ID = ''DH2'', FROM = 0, TO = 200, cells = [(''LITH'', Str ''SHALE'')]\<rparr>,
         \<lparr>table_ID = ''DH1'', FROM = 50, TO = 100, cells = [(''LITH'', Str ''WASTE'')]\<rparr>]\<rparr>"

definition demo :: drill_data where
  "demo = (init demo_collar demo_survey demo_table)\<lparr>validated := True\<rparr>"

text \<open>
  Variants of the example: \<open>DH2\<close> with a single survey station; \<open>DH1\<close> without
  feature rows; \<open>DH1\<close> with two rows whose \<open>FROM\<close> lies before the collar or beyond
  the largest \<open>TO\<close>, as an object and as the selected rows of that drillhole; and
  the selected rows of the scenario above.
\<close>

definition demo_one_station :: drill_data where
  "demo_one_station =
     demo\<lparr>survey :=
            [\<lparr>survey_ID = ''DH2'', AT = 0, AZ = 0, DIP = 90\<rparr>,
             \<lparr>survey_ID = ''DH1'', AT = 0, AZ = 0, DIP = 90\<rparr>,
             \<lparr>survey_ID = ''DH1'', AT = 100, AZ = 0, DIP = 90\<rparr>]\<rparr>"

definition demo_no_rows :: drill_data where
  "demo_no_rows =
     demo\<lparr>table :=
            \<lparr>tcolumns = [''LITH''],
             trows = [\<lparr>table_ID = ''DH2'', FROM = 0, TO = 200,
                       cells = [(''LITH'', Str ''SHALE'')]\<rparr>]\<rparr>\<rparr>"

definition demo_out_of_range :: drill_data where
  "demo_out_of_range =
     demo\<lparr>table :=
            \<lparr>tcolumns = [''LITH''],
             trows =
               [\<lparr>table_ID = ''DH1'', FROM = - 50, TO = 100, cells = [(''LITH'', Str ''ORE'')]\<rparr>,
                \<lparr>table_ID = ''DH2'', FROM = 0, TO = 200, cells = [(''LITH'', Str ''SHALE'')]\<rparr>,
                \<lparr>table_ID = ''DH1'', FROM = 120, TO = 100, cells = [(''LITH'', Str ''WASTE'')]\<rparr>]\<rparr>\<rparr>"

definition out_of_range_rows :: "(string \<times> real \<times> real \<times> cell) list" where
  "out_of_range_rows =
     [(''DH1'', - 50, 100, Str ''ORE''), (''DH1'', 120, 100, Str ''WASTE'')]"


section \<open>Properties\<close>

subsection \<open>Segment solver\<close>





subsection \<open>Trajectory builder\<close>

lemma set_unique: "set (unique xs) = set xs"
  by (induction xs rule: unique.induct) auto

lemma length_lengths: "length (lengths hs) = length hs - 1"
  by (simp add: lengths_def)

lemma length_displacements: "length (displacements hs) = length hs - 1"
  by (simp add: displacements_def length_lengths)

lemma length_cumsum_from: "length (cumsum_from acc vs) = length vs"
  by (induction vs arbitrary: acc) auto

lemma length_knots: "length (knots hc hs) = Suc (length hs - 1)"
  by (simp add: knots_def length_cumsum_from length_displacements)






subsection \<open>Curve fitter and feature draper\<close>


lemma max_TO_empty: "max_TO [] = Inl ValueError"
  by (simp add: max_TO_def)

lemma categorical_points_map:
  "categorical_points lib tck (map f hf) (map g hf) (map h hf) =
     concat (map (\<lambda>r. [sample lib tck (f r) (h r), sample lib tck (g r) (h r),
                        (None, None, None, h r)]) hf)"
  by (induction hf) (simp_all add: categorical_points_def)

lemma numeric_points_map:
  "numeric_points lib tck (map f hf) (map g hf) (map h hf) =
     concat (map (\<lambda>r. [sample lib tck (f r) (h r), sample lib tck (g r) (h r)]) hf)
     @ [(None, None, None, NaN)]"
  by (induction hf) (simp_all add: numeric_points_def)

lemma hole_points_success:
  assumes "dh_collar co dh = Inr c"
    and "fit lib c (dh_survey sv dh) = Inr tck"
    and "max_TO (dh_feature tb dh) = Inr len"
    and "len \<noteq> 0"
  shows "hole_points lib numeric co sv tb dh =
     Inr (if numeric
          then concat (map (\<lambda>r. [sample lib tck (fst r / len) (snd (snd r)),
                                  sample lib tck (fst (snd r) / len) (snd (snd r))])
                           (dh_feature tb dh))
               @ [(None, None, None, NaN)]
          else concat (map (\<lambda>r. [sample lib tck (fst r / len) (snd (snd r)),
                                  sample lib tck (fst (snd r) / len) (snd (snd r)),
                                  (None, None, None, snd (snd r))])
                           (dh_feature tb dh)))"
proof -
  let ?hf = "dh_feature tb dh"
  have d1: "divide_by (map fst ?hf) len = Inr (map (\<lambda>r. fst r / len) ?hf)"
    using assms(4) by (simp add: divide_by_def)
  have d2: "divide_by (map (\<lambda>r. fst (snd r)) ?hf) len = Inr (map (\<lambda>r. fst (snd r) / len) ?hf)"
    using assms(4) by (simp add: divide_by_def)
  show ?thesis
    unfolding hole_points_def
    by (simp add: assms(1,2,3) d1 d2 categorical_points_map numeric_points_map)
qed







lemma get_points_unvalidated: "\<not> validated st \<Longrightarrow> get_points lib feat dtype st = (None, st)"
  by (simp add: get_points_def)

lemma validate_ID_unvalidated: "\<not> validated st \<Longrightarrow> validate_ID st = st"
  by (simp add: validate_ID_def)

lemma validate_survey_rejects:
  assumes "length (filter (\<lambda>r. survey_ID r = dh) (survey st)) = 1"
  shows "\<not> validated (validate_survey st)"
proof -
  have "filter (\<lambda>r. survey_ID r = dh) (survey st) \<noteq> []" using assms by auto
  then have "dh \<in> set (map survey_ID (survey st))"
    by (auto simp: filter_empty_conv)
  then have "dh \<in> set (one_row_dh (survey st))"
    using assms by (simp add: one_row_dh_def set_unique)
  then have "length (one_row_dh (survey st)) \<noteq> 0" by auto
  then show ?thesis by (simp add: validate_survey_def)
qed

lemma validate_survey_fields:
  "points (validate_survey st) = points st \<and> has_points (validate_survey st) = has_points st
   \<and> collar (validate_survey st) = collar st \<and> survey (validate_survey st) = survey st
   \<and> table (validate_survey st) = table st"
  by (simp add: validate_survey_def)

lemma validate_ID_fields:
  "points (validate_ID st) = points st \<and> has_points (validate_ID st) = has_points st
   \<and> collar (validate_ID st) = collar st \<and> survey (validate_ID st) = survey st
   \<and> table (validate_ID st) = table st"
  by (simp add: validate_ID_def)

lemma all_holes_Inl:
  "dh \<in> set holeid \<Longrightarrow> f dh = Inl e \<Longrightarrow> \<exists>e'. all_holes f ps holeid = Inl e'"
proof (induction holeid arbitrary: ps)
  case Nil
  then show ?case by simp
next
  case (Cons a holeid)
  show ?case
  proof (cases "f a")
    case (Inl e0)
    then show ?thesis by simp
  next
    case (Inr qs)
    with Cons.prems have "a \<noteq> dh" by auto
    with Cons.prems have "dh \<in> set holeid" by auto
    from Cons.IH [OF this Cons.prems(2)] show ?thesis by (simp add: Inr)
  qed
qed

lemma all_holes_Inr:
  "all_holes f ps holeid = Inr qs \<Longrightarrow>
     (\<forall>dh \<in> set holeid. f dh = Inr (projr (f dh))) \<and>
     qs = ps @ concat (map (\<lambda>dh. projr (f dh)) holeid)"
proof (induction holeid arbitrary: ps)
  case Nil
  then show ?case by simp
next
  case (Cons a holeid)
  show ?case
  proof (cases "f a")
    case (Inl e)
    with Cons.prems show ?thesis by simp
  next
    case (Inr b)
    with Cons.prems have "all_holes f (ps @ b) holeid = Inr qs" by simp
    from Cons.IH [OF this] show ?thesis by (simp add: Inr)
  qed
qed

lemma hole_points_no_rows:
  assumes "dh_feature tb dh = []"
  shows "\<exists>e. hole_points lib numeric co sv tb dh = Inl e"
  unfolding hole_points_def
  by (simp add: assms max_TO_empty split: sum.splits)

lemma hole_points_InrD:
  assumes "hole_points lib numeric co sv tb dh = Inr ps"
  shows "\<exists>c tck len. dh_collar co dh = Inr c \<and> fit lib c (dh_survey sv dh) = Inr tck
           \<and> max_TO (dh_feature tb dh) = Inr len \<and> len \<noteq> 0"
  using assms unfolding hole_points_def
  by (auto simp: divide_by_def split: sum.splits if_splits)

lemma dh_feature_select:
  "select_columns t feat = Inr tb \<Longrightarrow>
     dh_feature tb dh =
       map (\<lambda>r. (FROM r, TO r, cell_of r feat)) (filter (\<lambda>r. table_ID r = dh) (trows t))"
  by (auto simp: select_columns_def dh_feature_def filter_map o_def split: if_splits)

lemma hole_points_values:
  assumes "hole_points lib numeric co sv tb dh = Inr ps"
    and "select_columns t feat = Inr tb"
  shows "map point_value ps = hole_values numeric feat t dh"
proof -
  obtain c tck len where h: "dh_collar co dh = Inr c" "fit lib c (dh_survey sv dh) = Inr tck"
      "max_TO (dh_feature tb dh) = Inr len" "len \<noteq> 0"
    using hole_points_InrD [OF assms(1)] by blast
  have pv: "snd (snd (snd (sample lib tck u col))) = col" for u col
    by (simp add: sample_def split: prod.splits)
  show ?thesis
    using assms(1) unfolding hole_points_success [OF h]
    by (cases numeric)
       (auto simp: hole_values_def dh_feature_select [OF assms(2)] map_concat o_def pv
          point_value_def)
qed

lemma get_points_validated:
  assumes "validated st"
  shows "get_points lib feat dtype st =
     (case select_columns (table st) feat of
        Inl e \<Rightarrow> (Some e, st\<lparr>feature := Some feat, feature_dtype := Some dtype\<rparr>)
      | Inr tb \<Rightarrow>
          (case (if dtype = ''categorical''
                 then all_holes (hole_points lib False (collar st) (survey st) tb) []
                        (unique (map survey_ID (survey st)))
                 else if dtype = ''numeric''
                 then all_holes (hole_points lib True (collar st) (survey st) tb) []
                        (unique (map survey_ID (survey st)))
                 else Inr []) of
             Inl e \<Rightarrow> (Some e, st\<lparr>feature := Some feat, feature_dtype := Some dtype\<rparr>)
           | Inr ps \<Rightarrow> (None, st\<lparr>feature := Some feat, feature_dtype := Some dtype,
                                   points := Some ps, has_points := True\<rparr>)))"
  using assms by (simp add: get_points_def Let_def split: sum.splits)

lemma get_points_raises:
  assumes "validated st"
    and "select_columns (table st) feat = Inr tb"
    and "dtype = ''categorical'' \<or> dtype = ''numeric''"
    and "dh \<in> set (unique (map survey_ID (survey st)))"
    and "hole_points lib (dtype = ''numeric'') (collar st) (survey st) tb dh = Inl e"
  shows "\<exists>e'. get_points lib feat dtype st =
           (Some e', st\<lparr>feature := Some feat, feature_dtype := Some dtype\<rparr>)"
proof -
  let ?f = "hole_points lib (dtype = ''numeric'') (collar st) (survey st) tb"
  obtain e' where e': "all_holes ?f [] (unique (map survey_ID (survey st))) = Inl e'"
    using all_holes_Inl [where f = ?f and ps = "[]", OF assms(4,5)] by blast
  show ?thesis
    using assms(3) e' by (auto simp: get_points_validated [OF assms(1)] assms(2))
qed

lemma extra_dh_survey_only:
  assumes "dh \<in> set (map survey_ID (survey st))"
    and "dh \<notin> set (map table_ID (trows (table st)))"
  shows "extra_dh st \<noteq> {}"
proof -
  have "dh \<in> symdiff (set (unique (map table_ID (trows (table st)))))
                      (set (unique (map survey_ID (survey st))))"
    using assms by (simp add: symdiff_def set_unique)
  then show ?thesis by (auto simp: extra_dh_def Let_def)
qed

subsection \<open>The example data\<close>

lemma xyz_vertical: "xyz d 0 90 0 90 = (0, 0, - d)"
  by (simp add: xyz_def xyz_dl_def xyz_rf_def radians_def Let_def)

lemma demo_unique: "unique (map survey_ID demo_survey) = [''DH2'', ''DH1'']"
  by (simp add: demo_survey_def)

lemma demo_select:
  "select_columns demo_table ''LITH'' =
     Inr [(''DH1'', 0, 50, Str ''ORE''), (''DH2'', 0, 200, Str ''SHALE''),
          (''DH1'', 50, 100, Str ''WASTE'')]"
  by (simp add: select_columns_def demo_table_def cell_of_def)

lemma demo_knots_DH1:
  "knots (1000, 1000, 500) (dh_survey demo_survey ''DH1'') = [(1000, 1000, 500), (1000, 1000, 400)]"
  by (simp add: knots_def dh_survey_def demo_survey_def displacements_def lengths_def
      xyz_vertical vadd_def)

lemma demo_knots_DH2:
  "knots (2000, 1000, 500) (dh_survey demo_survey ''DH2'') = [(2000, 1000, 500), (2000, 1000, 300)]"
  by (simp add: knots_def dh_survey_def demo_survey_def displacements_def lengths_def
      xyz_vertical vadd_def)

lemma demo_fit_DH1:
  "fit line_interpolate (1000, 1000, 500) (dh_survey demo_survey ''DH1'')
     = Inr ((1000, 1000, 500), (1000, 1000, 400))"
  unfolding fit_def demo_knots_DH1
  by (simp add: line_interpolate_def spline_degree_def dh_survey_def demo_survey_def)

lemma demo_fit_DH2:
  "fit line_interpolate (2000, 1000, 500) (dh_survey demo_survey ''DH2'')
     = Inr ((2000, 1000, 500), (2000, 1000, 300))"
  unfolding fit_def demo_knots_DH2
  by (simp add: line_interpolate_def spline_degree_def dh_survey_def demo_survey_def)

lemma demo_collar_DH1: "dh_collar demo_collar ''DH1'' = Inr (1000, 1000, 500)"
  by (simp add: dh_collar_def demo_collar_def)

lemma demo_collar_DH2: "dh_collar demo_collar ''DH2'' = Inr (2000, 1000, 500)"
  by (simp add: dh_collar_def demo_collar_def)

lemma sample_line:
  "sample line_interpolate ((px, py, pz), (qx, qy, qz)) u col =
     (Some (px + u * (qx - px)), Some (py + u * (qy - py)), Some (pz + u * (qz - pz)), col)"
  by (simp add: sample_def line_interpolate_def vadd_def vscale_def)

lemma demo_hole_DH1:
  "hole_points line_interpolate False demo_collar demo_survey
       [(''DH1'', 0, 50, Str ''ORE''), (''DH2'', 0, 200, Str ''SHALE''),
        (''DH1'', 50, 100, Str ''WASTE'')] ''DH1''
   = Inr [(Some 1000, Some 1000, Some 500, Str ''ORE''),
          (Some 1000, Some 1000, Some 450, Str ''ORE''),
          (None, None, None, Str ''ORE''),
          (Some 1000, Some 1000, Some 450, Str ''WASTE''),
          (Some 1000, Some 1000, Some 400, Str ''WASTE''),
          (None, None, None, Str ''WASTE'')]"
proof -
  have m: "max_TO (dh_feature [(''DH1'', 0, 50, Str ''ORE''), (''DH2'', 0, 200, Str ''SHALE''),
        (''DH1'', 50, 100, Str ''WASTE'')] ''DH1'') = Inr 100"
    by (simp add: max_TO_def dh_feature_def)
  show ?thesis
    using hole_points_success [OF demo_collar_DH1 demo_fit_DH1 m, of False]
    by (simp add: dh_feature_def sample_line)
qed

section \<open>The claims\<close>

subsection \<open>Auxiliary facts and the example data\<close>




lemma e2e_survey_DH1:
  "dh_survey e2e_survey ''DH1'' = [(0, 0, 0), (50, 10, 5), (100, 15, 10)]"
  by (simp add: dh_survey_def e2e_survey_def)




lemma demo_validated: "validated demo"
  by (simp add: demo_def init_def)

lemma demo_fields:
  "collar demo = demo_collar" "survey demo = demo_survey" "table demo = demo_table"
  by (simp_all add: demo_def init_def)

lemma demo_hole_DH2:
  "hole_points line_interpolate False demo_collar demo_survey
       [(''DH1'', 0, 50, Str ''ORE''), (''DH2'', 0, 200, Str ''SHALE''),
        (''DH1'', 50, 100, Str ''WASTE'')] ''DH2''
   = Inr [(Some 2000, Some 1000, Some 500, Str ''SHALE''),
          (Some 2000, Some 1000, Some 300, Str ''SHALE''),
          (None, None, None, Str ''SHALE'')]"
proof -
  have m: "max_TO (dh_feature [(''DH1'', 0, 50, Str ''ORE''), (''DH2'', 0, 200, Str ''SHALE''),
        (''DH1'', 50, 100, Str ''WASTE'')] ''DH2'') = Inr 200"
    by (simp add: max_TO_def dh_feature_def)
  show ?thesis
    using hole_points_success [OF demo_collar_DH2 demo_fit_DH2 m, of False]
    by (simp add: dh_feature_def sample_line)
qed

lemma demo_get_points:
  "get_points line_interpolate ''LITH'' ''categorical'' demo =
     (None, demo\<lparr>feature := Some ''LITH'', feature_dtype := Some ''categorical'',
                  points := Some [(Some 2000, Some 1000, Some 500, Str ''SHALE''),
                                  (Some 2000, Some 1000, Some 300, Str ''SHALE''),
                                  (None, None, None, Str ''SHALE''),
                                  (Some 1000, Some 1000, Some 500, Str ''ORE''),
                                  (Some 1000, Some 1000, Some 450, Str ''ORE''),
                                  (None, None, None, Str ''ORE''),
                                  (Some 1000, Some 1000, Some 450, Str ''WASTE''),
                                  (Some 1000, Some 1000, Some 400, Str ''WASTE''),
                                  (None, None, None, Str ''WASTE'')],
                  has_points := True\<rparr>)"
  by (simp add: get_points_validated [OF demo_validated] demo_fields demo_select demo_unique
      demo_hole_DH1 demo_hole_DH2)

text \<open>Both objects pass the validation of the survey rows and of the IDs unchanged.\<close>

lemma demo_passes_validation: "validate_ID (validate_survey demo) = demo"
proof -
  have s: "validate_survey demo = demo"
    by (simp add: validate_survey_def demo_validated one_row_dh_def demo_fields demo_unique)
       (simp add: demo_survey_def demo_def init_def)
  have x: "extra_dh demo = {}"
    by (auto simp: extra_dh_def symdiff_def set_unique demo_fields demo_collar_def
        demo_survey_def demo_table_def Let_def)
  show ?thesis
    using x by (simp add: s validate_ID_def demo_validated)
qed

lemma demo_out_of_range_passes_validation:
  "validate_ID (validate_survey demo_out_of_range) = demo_out_of_range"
proof -
  have v: "validated demo_out_of_range"
    by (simp add: demo_out_of_range_def demo_validated)
  have f: "collar demo_out_of_range = demo_collar" "survey demo_out_of_range = demo_survey"
    by (simp_all add: demo_out_of_range_def demo_fields)
  have s: "validate_survey demo_out_of_range = demo_out_of_range"
    by (simp add: validate_survey_def v one_row_dh_def f demo_unique)
       (simp add: demo_survey_def demo_out_of_range_def demo_def init_def)
  have x: "extra_dh demo_out_of_range = {}"
    by (auto simp: extra_dh_def symdiff_def set_unique f demo_fields demo_collar_def
        demo_survey_def demo_out_of_range_def Let_def)
  show ?thesis
    using x by (simp add: s validate_ID_def v)
qed

subsection \<open>C1: identical stations\<close>



subsection \<open>C2: knots of the trajectory\<close>



subsection \<open>C3: number of points per drillhole\<close>



subsection \<open>C4: degree of the fitted curve\<close>

text \<open>
  C4. The curve is fitted with degree 2 exactly when there are more than 3 knots, and
  with degree 1 otherwise; a drillhole with exactly 3 survey stations is fitted with
  degree 1.
\<close>

theorem degree_selection:
  "fit lib hc hs = splprep lib (knots hc hs) (spline_degree hs)
   \<and> (spline_degree hs = 2 \<longleftrightarrow> 3 < length (knots hc hs))
   \<and> (\<not> 3 < length (knots hc hs) \<longrightarrow> spline_degree hs = 1)
   \<and> (length hs = 3 \<longrightarrow> spline_degree hs = 1)"
  by (cases hs) (simp_all add: fit_def spline_degree_def length_knots)

theorem degree_selection_witness:
  "length (dh_survey e2e_survey ''DH1'') = 3
   \<and> \<not> 3 < length (knots (1000, 1000, 500) (dh_survey e2e_survey ''DH1''))
   \<and> spline_degree (dh_survey e2e_survey ''DH1'') = 1
   \<and> fit line_interpolate (1000, 1000, 500) (dh_survey e2e_survey ''DH1'')
       = splprep line_interpolate (knots (1000, 1000, 500) (dh_survey e2e_survey ''DH1'')) 1"
proof -
  have l: "length (dh_survey e2e_survey ''DH1'') = 3" by (simp add: e2e_survey_DH1)
  have k: "\<not> 3 < length (knots (1000, 1000, 500) (dh_survey e2e_survey ''DH1''))"
    by (simp add: length_knots l)
  show ?thesis
    using l k degree_selection [of line_interpolate "(1000, 1000, 500)" "dh_survey e2e_survey ''DH1''"]
    by simp
qed

subsection \<open>C5: normalised parameters\<close>



subsection \<open>C6: parameters outside the unit interval\<close>

text \<open>
  C6, as the specification states it, does not hold. The rows of \<open>DH1\<close> below have
  \<open>FROM = -50\<close> and \<open>FROM = 120\<close> with a largest \<open>TO\<close> of 100, so the curve is sampled
  at \<open>-1/2\<close> and at \<open>6/5\<close>. No exception is raised: the points returned by the curve
  evaluation, 50 above the collar and 20 below the last knot, are stored in the output.
  The object passes \<^verbatim>\<open>validate_survey\<close> and \<^verbatim>\<open>validate_ID\<close>
  (\<open>demo_out_of_range_passes_validation\<close>).
\<close>

theorem out_of_range_sampled:
  "divide_by [- 50, 120] 100 = Inr [- (1 / 2), 6 / 5]
   \<and> get_points line_interpolate ''LITH'' ''categorical'' demo_out_of_range =
     (None, demo_out_of_range
              \<lparr>feature := Some ''LITH'', feature_dtype := Some ''categorical'',
               points := Some [(Some 2000, Some 1000, Some 500, Str ''SHALE''),
                               (Some 2000, Some 1000, Some 300, Str ''SHALE''),
                               (None, None, None, Str ''SHALE''),
                               (Some 1000, Some 1000, Some 550, Str ''ORE''),
                               (Some 1000, Some 1000, Some 400, Str ''ORE''),
                               (None, None, None, Str ''ORE''),
                               (Some 1000, Some 1000, Some 380, Str ''WASTE''),
                               (Some 1000, Some 1000, Some 400, Str ''WASTE''),
                               (None, None, None, Str ''WASTE'')],
               has_points := True\<rparr>)"
proof -
  let ?tb = "[(''DH1'', - 50, 100, Str ''ORE''), (''DH2'', 0, 200, Str ''SHALE''),
              (''DH1'', 120, 100, Str ''WASTE'')]"
  have v: "validated demo_out_of_range"
    by (simp add: demo_out_of_range_def demo_validated)
  have sel: "select_columns (table demo_out_of_range) ''LITH'' = Inr ?tb"
    by (simp add: demo_out_of_range_def select_columns_def cell_of_def)
  have m1: "max_TO (dh_feature ?tb ''DH1'') = Inr 100"
    by (simp add: max_TO_def dh_feature_def)
  have m2: "max_TO (dh_feature ?tb ''DH2'') = Inr 200"
    by (simp add: max_TO_def dh_feature_def)
  have h1: "hole_points line_interpolate False demo_collar demo_survey ?tb ''DH1'' =
      Inr [(Some 1000, Some 1000, Some 550, Str ''ORE''),
           (Some 1000, Some 1000, Some 400, Str ''ORE''),
           (None, None, None, Str ''ORE''),
           (Some 1000, Some 1000, Some 380, Str ''WASTE''),
           (Some 1000, Some 1000, Some 400, Str ''WASTE''),
           (None, None, None, Str ''WASTE'')]"
    using hole_points_success [OF demo_collar_DH1 demo_fit_DH1 m1, of False]
    by (simp add: dh_feature_def sample_line)
  have h2: "hole_points line_interpolate False demo_collar demo_survey ?tb ''DH2'' =
      Inr [(Some 2000, Some 1000, Some 500, Str ''SHALE''),
           (Some 2000, Some 1000, Some 300, Str ''SHALE''),
           (None, None, None, Str ''SHALE'')]"
    using hole_points_success [OF demo_collar_DH2 demo_fit_DH2 m2, of False]
    by (simp add: dh_feature_def sample_line)
  have f: "collar demo_out_of_range = demo_collar" "survey demo_out_of_range = demo_survey"
    by (simp_all add: demo_out_of_range_def demo_fields)
  have "get_points line_interpolate ''LITH'' ''categorical'' demo_out_of_range =
     (None, demo_out_of_range
              \<lparr>feature := Some ''LITH'', feature_dtype := Some ''categorical'',
               points := Some [(Some 2000, Some 1000, Some 500, Str ''SHALE''),
                               (Some 2000, Some 1000, Some 300, Str ''SHALE''),
                               (None, None, None, Str ''SHALE''),
                               (Some 1000, Some 1000, Some 550, Str ''ORE''),
                               (Some 1000, Some 1000, Some 400, Str ''ORE''),
                               (None, None, None, Str ''ORE''),
                               (Some 1000, Some 1000, Some 380, Str ''WASTE''),
                               (Some 1000, Some 1000, Some 400, Str ''WASTE''),
                               (None, None, None, Str ''WASTE'')],
               has_points := True\<rparr>)"
    by (simp add: get_points_validated [OF v] sel f demo_unique h1 h2)
  then show ?thesis by (simp add: divide_by_def)
qed

text \<open>
  C6, amended. The draper does not restrict the parameter: whenever the collar is found,
  the curve is fitted and the total length is not 0, the points of a drillhole are the
  samples at \<open>FROM / length\<close> and \<open>TO / length\<close> of every row, whatever these quotients
  are, and the sample at any real parameter \<open>u\<close> is the point that \<^verbatim>\<open>splev\<close> returns
  for \<open>u\<close>.
\<close>

theorem sampling_unrestricted:
  assumes "dh_collar co dh = Inr c"
    and "fit lib c (dh_survey sv dh) = Inr tck"
    and "max_TO (dh_feature tb dh) = Inr len"
    and "len \<noteq> 0"
  shows "hole_points lib False co sv tb dh =
           Inr (concat (map (\<lambda>r. [sample lib tck (fst r / len) (snd (snd r)),
                                   sample lib tck (fst (snd r) / len) (snd (snd r)),
                                   (None, None, None, snd (snd r))])
                            (dh_feature tb dh)))
       \<and> hole_points lib True co sv tb dh =
           Inr (concat (map (\<lambda>r. [sample lib tck (fst r / len) (snd (snd r)),
                                   sample lib tck (fst (snd r) / len) (snd (snd r))])
                            (dh_feature tb dh))
                @ [(None, None, None, NaN)])
       \<and> (\<forall>u col. \<exists>x y z. splev lib u tck = (x, y, z)
                           \<and> sample lib tck u col = (Some x, Some y, Some z, col))"
  using hole_points_success [OF assms, of False] hole_points_success [OF assms, of True]
  by (simp add: sample_def split: prod.splits)

theorem sampling_unrestricted_witness:
  "dh_collar demo_collar ''DH1'' = Inr (1000, 1000, 500)
   \<and> fit line_interpolate (1000, 1000, 500) (dh_survey demo_survey ''DH1'')
       = Inr ((1000, 1000, 500), (1000, 1000, 400))
   \<and> max_TO (dh_feature out_of_range_rows ''DH1'') = Inr 100
   \<and> hole_points line_interpolate False demo_collar demo_survey out_of_range_rows ''DH1'' =
       Inr [(Some 1000, Some 1000, Some 550, Str ''ORE''),
            (Some 1000, Some 1000, Some 400, Str ''ORE''),
            (None, None, None, Str ''ORE''),
            (Some 1000, Some 1000, Some 380, Str ''WASTE''),
            (Some 1000, Some 1000, Some 400, Str ''WASTE''),
            (None, None, None, Str ''WASTE'')]"
proof -
  have m: "max_TO (dh_feature out_of_range_rows ''DH1'') = Inr 100"
    by (simp add: max_TO_def dh_feature_def out_of_range_rows_def)
  have nz: "(100::real) \<noteq> 0" by simp
  have "hole_points line_interpolate False demo_collar demo_survey out_of_range_rows ''DH1'' =
       Inr [(Some 1000, Some 1000, Some 550, Str ''ORE''),
            (Some 1000, Some 1000, Some 400, Str ''ORE''),
            (None, None, None, Str ''ORE''),
            (Some 1000, Some 1000, Some 380, Str ''WASTE''),
            (Some 1000, Some 1000, Some 400, Str ''WASTE''),
            (None, None, None, Str ''WASTE'')]"
    using sampling_unrestricted [OF demo_collar_DH1 demo_fit_DH1 m nz]
    by (simp add: dh_feature_def out_of_range_rows_def sample_line)
  then show ?thesis
    using demo_collar_DH1 demo_fit_DH1 m by blast
qed

subsection \<open>C7: a drillhole with a single survey station\<close>

text \<open>
  C7, as the specification states it, does not hold. In the data below \<open>DH2\<close> has one
  survey station and \<open>DH1\<close> has two. \<^verbatim>\<open>validate_survey\<close> withdraws the validation of
  the whole object, and \<^verbatim>\<open>get_points\<close> then returns without an exception and without
  any point, also for \<open>DH1\<close>.
\<close>

theorem one_station_no_output:
  "validated demo_one_station
   \<and> length (filter (\<lambda>r. survey_ID r = ''DH2'') (survey demo_one_station)) = 1
   \<and> length (filter (\<lambda>r. survey_ID r = ''DH1'') (survey demo_one_station)) = 2
   \<and> validate_ID (validate_survey demo_one_station) = demo_one_station\<lparr>validated := False\<rparr>
   \<and> get_points line_interpolate ''LITH'' ''categorical'' (validate_ID (validate_survey demo_one_station))
       = (None, demo_one_station\<lparr>validated := False\<rparr>)
   \<and> points (demo_one_station\<lparr>validated := False\<rparr>) = None
   \<and> has_points (demo_one_station\<lparr>validated := False\<rparr>) = False"
proof -
  have v: "validated demo_one_station"
    by (simp add: demo_one_station_def demo_validated)
  have s: "validate_survey demo_one_station = demo_one_station\<lparr>validated := False\<rparr>"
    by (simp add: validate_survey_def v one_row_dh_def) (simp add: demo_one_station_def)
  have i: "validate_ID (demo_one_station\<lparr>validated := False\<rparr>) = demo_one_station\<lparr>validated := False\<rparr>"
    by (simp add: validate_ID_unvalidated)
  show ?thesis
    using v by (simp add: s i get_points_unvalidated) (simp add: demo_one_station_def demo_def init_def)
qed

text \<open>
  C7, amended. When some drillhole has exactly one survey station, \<^verbatim>\<open>validate_survey\<close>
  leaves the object not validated, \<^verbatim>\<open>validate_ID\<close> keeps it so, and \<^verbatim>\<open>get_points\<close>
  then returns without raising and without processing any drillhole: the stored points
  and \<^verbatim>\<open>has_points\<close> are what they were before.
\<close>

theorem one_station_rejects_batch:
  assumes "length (filter (\<lambda>r. survey_ID r = dh) (survey st)) = 1"
  shows "\<not> validated (validate_survey st)
       \<and> validate_ID (validate_survey st) = validate_survey st
       \<and> get_points lib feat dtype (validate_survey st) = (None, validate_survey st)
       \<and> points (validate_survey st) = points st
       \<and> has_points (validate_survey st) = has_points st"
  using validate_survey_rejects [OF assms]
  by (simp add: get_points_unvalidated validate_ID_unvalidated validate_survey_fields)

theorem one_station_rejects_batch_witness:
  "length (filter (\<lambda>r. survey_ID r = ''DH2'') (survey demo_one_station)) = 1
   \<and> \<not> validated (validate_survey demo_one_station)
   \<and> validate_ID (validate_survey demo_one_station) = validate_survey demo_one_station
   \<and> get_points line_interpolate ''LITH'' ''numeric'' (validate_survey demo_one_station)
       = (None, validate_survey demo_one_station)
   \<and> points (validate_survey demo_one_station) = points demo_one_station
   \<and> has_points (validate_survey demo_one_station) = has_points demo_one_station"
proof -
  have h: "length (filter (\<lambda>r. survey_ID r = ''DH2'') (survey demo_one_station)) = 1"
    by (simp add: demo_one_station_def)
  show ?thesis
    using h one_station_rejects_batch [OF h, of line_interpolate "''LITH''" "''numeric''"]
    by blast
qed

subsection \<open>C8: a drillhole without feature rows\<close>

text \<open>
  C8, as the specification states it, does not hold. In the data below \<open>DH1\<close> has no
  feature rows and \<open>DH2\<close>, which is processed first, has one. With the validation flag
  set, \<^verbatim>\<open>get_points\<close> ends with the \<^verbatim>\<open>ValueError\<close> of the maximum of an empty
  column and stores no points, not even those of \<open>DH2\<close>; after \<^verbatim>\<open>validate_ID\<close> the
  object is not validated and \<^verbatim>\<open>get_points\<close> returns without any point.
\<close>

theorem no_feature_rows_aborts:
  "validated demo_no_rows
   \<and> dh_feature [(''DH2'', 0, 200, Str ''SHALE'')] ''DH1'' = []
   \<and> get_points line_interpolate ''LITH'' ''categorical'' demo_no_rows
       = (Some ValueError,
          demo_no_rows\<lparr>feature := Some ''LITH'', feature_dtype := Some ''categorical''\<rparr>)
   \<and> points (demo_no_rows\<lparr>feature := Some ''LITH'', feature_dtype := Some ''categorical''\<rparr>) = None
   \<and> validate_ID demo_no_rows = demo_no_rows\<lparr>validated := False\<rparr>
   \<and> get_points line_interpolate ''LITH'' ''categorical'' (validate_ID demo_no_rows)
       = (None, demo_no_rows\<lparr>validated := False\<rparr>)
   \<and> points (demo_no_rows\<lparr>validated := False\<rparr>) = None"
proof -
  let ?tb = "[(''DH2'', 0, 200, Str ''SHALE'')]"
  have v: "validated demo_no_rows"
    by (simp add: demo_no_rows_def demo_validated)
  have f: "collar demo_no_rows = demo_collar" "survey demo_no_rows = demo_survey"
    by (simp_all add: demo_no_rows_def demo_fields)
  have sel: "select_columns (table demo_no_rows) ''LITH'' = Inr ?tb"
    by (simp add: demo_no_rows_def select_columns_def cell_of_def)
  have m2: "max_TO (dh_feature ?tb ''DH2'') = Inr 200"
    by (simp add: max_TO_def dh_feature_def)
  have h2: "hole_points line_interpolate False demo_collar demo_survey ?tb ''DH2'' =
      Inr [(Some 2000, Some 1000, Some 500, Str ''SHALE''),
           (Some 2000, Some 1000, Some 300, Str ''SHALE''),
           (None, None, None, Str ''SHALE'')]"
    using hole_points_success [OF demo_collar_DH2 demo_fit_DH2 m2, of False]
    by (simp add: dh_feature_def sample_line)
  have e: "dh_feature ?tb ''DH1'' = []"
    by (simp add: dh_feature_def)
  have h1: "hole_points line_interpolate False demo_collar demo_survey ?tb ''DH1'' = Inl ValueError"
    by (simp add: hole_points_def demo_collar_DH1 demo_fit_DH1 e max_TO_empty)
  have g: "get_points line_interpolate ''LITH'' ''categorical'' demo_no_rows
       = (Some ValueError,
          demo_no_rows\<lparr>feature := Some ''LITH'', feature_dtype := Some ''categorical''\<rparr>)"
    by (simp add: get_points_validated [OF v] sel f demo_unique h1 h2)
  have x: "extra_dh demo_no_rows \<noteq> {}"
    by (simp add: extra_dh_def symdiff_def demo_no_rows_def demo_def init_def
        demo_collar_def demo_survey_def Let_def)
  have i: "validate_ID demo_no_rows = demo_no_rows\<lparr>validated := False\<rparr>"
    using v x by (simp add: validate_ID_def)
  show ?thesis
    using v e g i
    by (simp add: get_points_unvalidated) (simp add: demo_no_rows_def demo_def init_def)
qed

text \<open>
  C8, amended. When a drillhole of the survey table has no row in the feature table,
  \<^verbatim>\<open>validate_ID\<close> leaves a validated object not validated, and \<^verbatim>\<open>get_points\<close> then
  returns without raising and without points for any drillhole. When \<^verbatim>\<open>get_points\<close> runs
  on the object with the validation flag still set, an exception ends the call and no
  points are stored: only the requested feature and dtype are recorded.
\<close>

theorem no_feature_rows_rejects_batch:
  assumes "validated st"
    and "dh \<in> set (map survey_ID (survey st))"
    and "dh \<notin> set (map table_ID (trows (table st)))"
    and "feat \<in> set (tcolumns (table st))"
    and "dtype = ''categorical'' \<or> dtype = ''numeric''"
  shows "\<not> validated (validate_ID st)
       \<and> get_points lib feat dtype (validate_ID st) = (None, validate_ID st)
       \<and> points (validate_ID st) = points st
       \<and> has_points (validate_ID st) = has_points st
       \<and> (\<exists>e. get_points lib feat dtype st =
                 (Some e, st\<lparr>feature := Some feat, feature_dtype := Some dtype\<rparr>))"
proof -
  have nv: "\<not> validated (validate_ID st)"
    using assms(1) extra_dh_survey_only [OF assms(2,3)] by (simp add: validate_ID_def)
  obtain tb where tb: "select_columns (table st) feat = Inr tb"
    using assms(4) by (simp add: select_columns_def)
  have "dh_feature tb dh = []"
    using assms(3) by (auto simp: dh_feature_select [OF tb] filter_empty_conv)
  then obtain e where "hole_points lib (dtype = ''numeric'') (collar st) (survey st) tb dh = Inl e"
    using hole_points_no_rows by blast
  moreover have "dh \<in> set (unique (map survey_ID (survey st)))"
    using assms(2) by (simp add: set_unique)
  ultimately have "\<exists>e. get_points lib feat dtype st =
                 (Some e, st\<lparr>feature := Some feat, feature_dtype := Some dtype\<rparr>)"
    using get_points_raises [OF assms(1) tb assms(5)] by blast
  then show ?thesis
    using nv by (simp add: get_points_unvalidated validate_ID_fields)
qed

theorem no_feature_rows_rejects_batch_witness:
  "validated demo_no_rows
   \<and> ''DH1'' \<in> set (map survey_ID (survey demo_no_rows))
   \<and> ''DH1'' \<notin> set (map table_ID (trows (table demo_no_rows)))
   \<and> \<not> validated (validate_ID demo_no_rows)
   \<and> get_points line_interpolate ''LITH'' ''numeric'' (validate_ID demo_no_rows)
       = (None, validate_ID demo_no_rows)
   \<and> points (validate_ID demo_no_rows) = points demo_no_rows
   \<and> has_points (validate_ID demo_no_rows) = has_points demo_no_rows
   \<and> (\<exists>e. get_points line_interpolate ''LITH'' ''numeric'' demo_no_rows =
             (Some e, demo_no_rows\<lparr>feature := Some ''LITH'', feature_dtype := Some ''numeric''\<rparr>))"
proof -
  have v: "validated demo_no_rows"
    by (simp add: demo_no_rows_def demo_validated)
  have a: "''DH1'' \<in> set (map survey_ID (survey demo_no_rows))"
    by (simp add: demo_no_rows_def demo_fields demo_survey_def)
  have b: "''DH1'' \<notin> set (map table_ID (trows (table demo_no_rows)))"
    by (simp add: demo_no_rows_def)
  have c: "''LITH'' \<in> set (tcolumns (table demo_no_rows))"
    by (simp add: demo_no_rows_def)
  have d: "''numeric'' = ''categorical'' \<or> ''numeric'' = ''numeric''" by simp
  show ?thesis
    using v a b no_feature_rows_rejects_batch [OF v a b c d, of line_interpolate]
    by blast
qed

subsection \<open>C9: order of the output\<close>

text \<open>
  C9. When \<^verbatim>\<open>get_points\<close> returns without an exception, the stored points are the
  points of the drillholes one after another, the drillholes in the order in which their
  IDs first appear in the survey table, and the values carried by the points follow the
  rows of the feature table within each drillhole. The result is a function of the
  tables, the feature and the dtype alone.
\<close>

theorem output_order:
  assumes "validated st"
    and "dtype = ''categorical'' \<or> dtype = ''numeric''"
    and "fst (get_points lib feat dtype st) = None"
  shows "\<exists>tb hp.
       select_columns (table st) feat = Inr tb
     \<and> (\<forall>dh \<in> set (unique (map survey_ID (survey st))).
           hole_points lib (dtype = ''numeric'') (collar st) (survey st) tb dh = Inr (hp dh)
         \<and> map point_value (hp dh) = hole_values (dtype = ''numeric'') feat (table st) dh)
     \<and> points (snd (get_points lib feat dtype st))
         = Some (concat (map hp (unique (map survey_ID (survey st)))))
     \<and> map point_value (concat (map hp (unique (map survey_ID (survey st)))))
         = output_values (dtype = ''numeric'') feat (table st) (survey st)"
proof -
  let ?ids = "unique (map survey_ID (survey st))"
  obtain tb where tb: "select_columns (table st) feat = Inr tb"
    using assms(3) by (cases "select_columns (table st) feat")
      (simp_all add: get_points_validated [OF assms(1)])
  let ?f = "hole_points lib (dtype = ''numeric'') (collar st) (survey st) tb"
  have run: "get_points lib feat dtype st =
      (case all_holes ?f [] ?ids of
         Inl e \<Rightarrow> (Some e, st\<lparr>feature := Some feat, feature_dtype := Some dtype\<rparr>)
       | Inr ps \<Rightarrow> (None, st\<lparr>feature := Some feat, feature_dtype := Some dtype,
                               points := Some ps, has_points := True\<rparr>))"
    using assms(2) by (auto simp: get_points_validated [OF assms(1)] tb)
  obtain ps where ps: "all_holes ?f [] ?ids = Inr ps"
    using assms(3) unfolding run by (cases "all_holes ?f [] ?ids") simp_all
  let ?hp = "\<lambda>dh. projr (?f dh)"
  have ok: "\<forall>dh \<in> set ?ids. ?f dh = Inr (?hp dh)" and cat: "ps = concat (map ?hp ?ids)"
    using all_holes_Inr [OF ps] by simp_all
  have vals: "map point_value (?hp dh) = hole_values (dtype = ''numeric'') feat (table st) dh"
    if "dh \<in> set ?ids" for dh
    using ok that hole_points_values [OF _ tb] by blast
  have "map point_value (concat (map ?hp ?ids))
      = output_values (dtype = ''numeric'') feat (table st) (survey st)"
    using vals by (simp add: output_values_def map_concat o_def cong: map_cong)
  moreover have "points (snd (get_points lib feat dtype st)) = Some (concat (map ?hp ?ids))"
    unfolding run ps by (simp add: cat)
  ultimately show ?thesis
    using tb ok vals
    by (intro exI [of _ tb] exI [of _ ?hp]) simp
qed

theorem output_order_witness:
  "validated demo
   \<and> fst (get_points line_interpolate ''LITH'' ''categorical'' demo) = None
   \<and> unique (map survey_ID (survey demo)) = [''DH2'', ''DH1'']
   \<and> (\<exists>hp. points (snd (get_points line_interpolate ''LITH'' ''categorical'' demo))
               = Some (hp ''DH2'' @ hp ''DH1'')
          \<and> map point_value (hp ''DH2'' @ hp ''DH1'')
               = [Str ''SHALE'', Str ''SHALE'', Str ''SHALE'',
                  Str ''ORE'', Str ''ORE'', Str ''ORE'',
                  Str ''WASTE'', Str ''WASTE'', Str ''WASTE''])"
proof -
  have n: "fst (get_points line_interpolate ''LITH'' ''categorical'' demo) = None"
    by (simp add: demo_get_points)
  have d: "''categorical'' = ''categorical'' \<or> ''categorical'' = ''numeric''" by simp
  have u: "unique (map survey_ID (survey demo)) = [''DH2'', ''DH1'']"
    by (simp add: demo_fields demo_unique)
  obtain tb hp where
        p: "points (snd (get_points line_interpolate ''LITH'' ''categorical'' demo))
              = Some (concat (map hp (unique (map survey_ID (survey demo)))))"
    and o: "map point_value (concat (map hp (unique (map survey_ID (survey demo)))))
              = output_values (''categorical'' = ''numeric'') ''LITH'' (table demo) (survey demo)"
    using output_order [OF demo_validated d n] by blast
  have w: "output_values False ''LITH'' demo_table demo_survey
             = [Str ''SHALE'', Str ''SHALE'', Str ''SHALE'',
                Str ''ORE'', Str ''ORE'', Str ''ORE'',
                Str ''WASTE'', Str ''WASTE'', Str ''WASTE'']"
    by (simp add: output_values_def demo_unique hole_values_def demo_table_def cell_of_def)
  have p': "points (snd (get_points line_interpolate ''LITH'' ''categorical'' demo))
               = Some (hp ''DH2'' @ hp ''DH1'')"
    using p by (simp add: u)
  have o': "map point_value (hp ''DH2'' @ hp ''DH1'')
               = [Str ''SHALE'', Str ''SHALE'', Str ''SHALE'',
                  Str ''ORE'', Str ''ORE'', Str ''ORE'',
                  Str ''WASTE'', Str ''WASTE'', Str ''WASTE'']"
    using o by (simp add: demo_unique w demo_fields)
  have e: "\<exists>hp. points (snd (get_points line_interpolate ''LITH'' ''categorical'' demo))
               = Some (hp ''DH2'' @ hp ''DH1'')
          \<and> map point_value (hp ''DH2'' @ hp ''DH1'')
               = [Str ''SHALE'', Str ''SHALE'', Str ''SHALE'',
                  Str ''ORE'', Str ''ORE'', Str ''ORE'',
                  Str ''WASTE'', Str ''WASTE'', Str ''WASTE'']"
    by (rule exI [of _ hp]) (rule conjI [OF p' o'])
  show ?thesis
    by (intro conjI demo_validated n u e)
qed

subsection \<open>C10: an unknown dtype\<close>

text \<open>
  C10. On a validated object and for a feature that is a column of the table, a dtype
  other than \<open>categorical\<close> and \<open>numeric\<close> raises nothing: the call stores an empty
  list of points and sets \<^verbatim>\<open>has_points\<close>.
\<close>

theorem unknown_dtype_empty_points:
  assumes "validated st"
    and "feat \<in> set (tcolumns (table st))"
    and "dtype \<noteq> ''categorical''" and "dtype \<noteq> ''numeric''"
  shows "get_points lib feat dtype st =
           (None, st\<lparr>feature := Some feat, feature_dtype := Some dtype,
                      points := Some [], has_points := True\<rparr>)"
  using assms(2,3,4)
  by (simp add: get_points_validated [OF assms(1)] select_columns_def)

theorem unknown_dtype_empty_points_witness:
  "validated demo
   \<and> ''LITH'' \<in> set (tcolumns (table demo))
   \<and> get_points line_interpolate ''LITH'' ''categoric'' demo =
       (None, demo\<lparr>feature := Some ''LITH'', feature_dtype := Some ''categoric'',
                    points := Some [], has_points := True\<rparr>)"
proof -
  have c: "''LITH'' \<in> set (tcolumns (table demo))"
    by (simp add: demo_fields demo_table_def)
  have d1: "''categoric'' \<noteq> ''categorical''" by simp
  have d2: "''categoric'' \<noteq> ''numeric''" by simp
  show ?thesis
    using demo_validated c unknown_dtype_empty_points [OF demo_validated c d1 d2, of line_interpolate]
    by blast
qed

end
